theory Spec2Isabelle
  imports Main
begin

section \<open>The declaration file as data\<close>

text \<open>
  The source, \<^verbatim>\<open>ui-ngx/src/typings/leadflet-editable.d.ts\<close>, is an ambient
  augmentation of the module \<^verbatim>\<open>leaflet\<close>: interfaces, one namespace, one variable
  and one function signature. It has no function bodies. What it fixes is which
  members a value of each declared type has, and with which types; that is what
  is embedded here. A declaration is kept as it is written (names, order,
  optional marks, \<^verbatim>\<open>extends\<close> clauses), and the meaning TypeScript gives to it
  (name resolution, merging of declarations that share a name, inheritance along
  \<^verbatim>\<open>extends\<close>) is computed by the functions below.
\<close>

subsection \<open>Types, members and declarations\<close>

text \<open>
  A type name is a path of identifiers: \<^verbatim>\<open>leaflet.MapOptions\<close> is
  \<open>[''leaflet'', ''MapOptions'']\<close>, and the interface \<^verbatim>\<open>MapOptions\<close> declared inside
  \<^verbatim>\<open>namespace Map\<close> is \<open>[''Map'', ''MapOptions'']\<close>.
\<close>

type_synonym qname = "string list"

datatype ty =
    TBoolean
  | TString
  | TObject
  | TVoid
  | TAny
  | TRef qname
  | TApp qname "ty list"
  | TUnion "ty list"

text \<open>A parameter: its name, whether it is marked optional (\<^verbatim>\<open>?\<close>), its type.\<close>

datatype param = Param string bool ty

text \<open>
  A member of an interface body: a property (name, optional mark, type), a method
  (name, parameters, result type) or a construct signature (\<^verbatim>\<open>new (...): T\<close>).
\<close>

datatype member =
    Property string bool ty
  | Method string "param list" ty
  | Construct "param list" ty

text \<open>
  A declaration of the module body. An interface carries the path of the
  namespaces that enclose it (empty at the level of the module), its name, its
  \<^verbatim>\<open>extends\<close> clause and its body.
\<close>

datatype decl =
    Interface qname string "qname list" "member list"
  | Variable string ty
  | Function string "param list" ty

subsection \<open>The declarations of the file, in source order\<close>

definition EditableStatic :: decl where
  "EditableStatic = Interface [] ''EditableStatic'' []
     [Construct [Param ''map'' False (TRef [''Map'']),
                 Param ''options'' False (TRef [''EditOptions''])]
        (TRef [''Editable''])]"

definition EditOptions :: decl where
  "EditOptions = Interface [] ''EditOptions'' [[''leaflet'', ''MapOptions'']]
     [Property ''editable'' False TBoolean,
      Property ''polylineClass'' True TObject,
      Property ''polygonClass'' True TObject,
      Property ''markerClass'' True TObject,
      Property ''drawingCSSClass'' True TString,
      Property ''editLayer'' True (TApp [''LayerGroup''] [TRef [''leaflet'', ''Layer'']]),
      Property ''featuresLayer'' True
        (TApp [''LayerGroup'']
           [TUnion [TRef [''Polyline''], TRef [''Polygon''], TRef [''Marker'']]]),
      Property ''vertexMarkerClass'' True TObject,
      Property ''middleMarkerClass'' True TObject,
      Property ''polylineEditorClass'' True TObject,
      Property ''polygonEditorClass'' True TObject,
      Property ''markerEditorClass'' True TObject,
      Property ''lineGuideOptions'' True TObject,
      Property ''skipMiddleMarkers'' True TBoolean]"

definition Editable :: decl where
  "Editable = Interface [] ''Editable'' [[''leaflet'', ''Evented'']]
     [Property ''options'' False (TRef [''EditOptions'']),
      Property ''currentPolygon'' False
        (TUnion [TRef [''Polyline''], TRef [''Polygon''], TRef [''Marker'']]),
      Method ''startPolyline''
        [Param ''latLng'' True (TRef [''LatLng'']),
         Param ''options'' True (TRef [''PolylineOptions''])]
        (TRef [''Polyline'']),
      Method ''startPolygon''
        [Param ''latLng'' True (TRef [''LatLng'']),
         Param ''options'' True (TRef [''PolylineOptions''])]
        (TRef [''Polygon'']),
      Method ''startMarker''
        [Param ''latLng'' True (TRef [''LatLng'']),
         Param ''options'' True (TRef [''MarkerOptions''])]
        (TRef [''Marker'']),
      Method ''stopDrawing'' [] TVoid,
      Method ''commitDrawing'' [] TVoid]"

definition Editable_let :: decl where
  "Editable_let = Variable ''Editable'' (TRef [''EditableStatic''])"

definition EditableMixin :: decl where
  "EditableMixin = Interface [] ''EditableMixin'' []
     [Method ''enableEdit'' [Param ''map'' False (TRef [''L'', ''Map''])] TAny,
      Method ''disableEdit'' [] TVoid,
      Method ''toggleEdit'' [] TVoid,
      Method ''editEnabled'' [] TBoolean]"

definition Map_interface :: decl where
  "Map_interface = Interface [] ''Map'' []
     [Property ''editOptions'' False (TRef [''MapOptions'']),
      Property ''editTools'' False (TRef [''Editable''])]"

text \<open>Line 193: a first, empty declaration of \<^verbatim>\<open>Polyline\<close>; line 270 is the second.\<close>

definition Polyline_193 :: decl where
  "Polyline_193 = Interface [] ''Polyline'' [[''EditableMixin'']] []"

definition Map_MapOptions :: decl where
  "Map_MapOptions = Interface [''Map''] ''MapOptions'' []
     [Property ''editable'' True TBoolean,
      Property ''editOptions'' True (TRef [''MapOptions''])]"

definition editor_union :: ty where
  "editor_union =
     TUnion [TRef [''MarkerEditor''], TRef [''PolylineEditor''], TRef [''PolygonEditor'']]"

definition BaseEditor :: decl where
  "BaseEditor = Interface [] ''BaseEditor'' []
     [Method ''enable'' [] editor_union,
      Method ''disable'' [] editor_union]"

definition PathEditor :: decl where
  "PathEditor = Interface [] ''PathEditor'' [[''BaseEditor'']]
     [Method ''reset'' [] TVoid]"

definition PolylineEditor :: decl where
  "PolylineEditor = Interface [] ''PolylineEditor'' [[''PathEditor'']]
     [Method ''continueForward'' [] TVoid,
      Method ''continueBackward'' [] TVoid]"

definition PolygonEditor :: decl where
  "PolygonEditor = Interface [] ''PolygonEditor'' [[''PathEditor'']]
     [Method ''newHole'' [Param ''latlng'' False (TRef [''LatLng''])] TVoid]"

definition MarkerEditor :: decl where
  "MarkerEditor = Interface [] ''MarkerEditor'' [[''BaseEditor'']] []"

definition Marker :: decl where
  "Marker = Interface [] ''Marker'' [[''EditableMixin''], [''MarkerEditor'']] []"

definition Polyline :: decl where
  "Polyline = Interface [] ''Polyline'' [[''EditableMixin''], [''PolylineEditor'']] []"

definition Polygon :: decl where
  "Polygon = Interface [] ''Polygon'' [[''EditableMixin''], [''PolygonEditor'']] []"

definition map_function :: decl where
  "map_function = Function ''map''
     [Param ''element'' False (TUnion [TString, TRef [''HTMLElement'']]),
      Param ''options'' True (TRef [''EditOptions''])]
     (TRef [''Map''])"

definition declarations :: "decl list" where
  "declarations =
     [EditableStatic, EditOptions, Editable, Editable_let, EditableMixin,
      Map_interface, Polyline_193, Map_MapOptions, BaseEditor, PathEditor,
      PolylineEditor, PolygonEditor, MarkerEditor, Marker, Polyline, Polygon,
      map_function]"

text \<open>
  Line 17, \<^verbatim>\<open>import * as leaflet from 'leaflet'\<close>, makes \<^verbatim>\<open>leaflet\<close> a name of
  the augmented module itself: \<^verbatim>\<open>leaflet.X\<close> is the module's \<^verbatim>\<open>X\<close>.
\<close>

definition module_aliases :: "string list" where
  "module_aliases = [''leaflet'']"

text \<open>
  The module \<^verbatim>\<open>leaflet\<close> has declarations of its own (the library's typings:
  \<^verbatim>\<open>MapOptions\<close>, \<^verbatim>\<open>Evented\<close>, the classes \<^verbatim>\<open>Map\<close>, \<^verbatim>\<open>Marker\<close>,
  \<^verbatim>\<open>Polyline\<close>, \<^verbatim>\<open>Polygon\<close>, ...). They are not part of this repository. They are
  a parameter \<open>lib\<close>: the program a compiler sees is \<open>lib\<close> merged with the
  declarations of this file.
\<close>

definition program :: "decl list \<Rightarrow> decl list" where
  "program lib = lib @ declarations"

subsection \<open>Name resolution\<close>

text \<open>
  The names a program declares, each with the path of its enclosing namespaces.
\<close>

fun declared_name :: "decl \<Rightarrow> qname list" where
  "declared_name (Interface s n exts ms) = [s @ [n]]"
| "declared_name (Variable n t) = []"
| "declared_name (Function n ps t) = []"

definition declared_names :: "decl list \<Rightarrow> qname list" where
  "declared_names P = concat (map declared_name P)"

text \<open>
  \<open>q\<close> is in scope as a type or a namespace when it is a declared name or the
  path of a namespace that encloses one.
\<close>

definition is_declared :: "qname list \<Rightarrow> qname \<Rightarrow> bool" where
  "is_declared D q = list_ex (\<lambda>d. take (length q) d = q) D"

text \<open>
  TypeScript looks the first identifier of a reference up in the innermost
  enclosing namespace first, then outwards; the second argument is the path of
  the enclosing namespaces, innermost first. At the level of the module the
  reference stands for itself: a name of the module, declared here or by the
  library.
\<close>

fun lookup_scope :: "qname list \<Rightarrow> string list \<Rightarrow> qname \<Rightarrow> qname" where
  "lookup_scope D [] r = r"
| "lookup_scope D (x # xs) r =
     (if is_declared D (rev (x # xs) @ take 1 r) then rev (x # xs) @ r
      else lookup_scope D xs r)"

definition resolve :: "qname list \<Rightarrow> qname \<Rightarrow> qname \<Rightarrow> qname" where
  "resolve D s r =
     (case r of
        [] \<Rightarrow> []
      | a # r' \<Rightarrow>
          if a \<in> set module_aliases \<and> r' \<noteq> [] then r' else lookup_scope D (rev s) r)"

fun resolve_ty :: "qname list \<Rightarrow> qname \<Rightarrow> ty \<Rightarrow> ty" where
  "resolve_ty D s (TRef r) = TRef (resolve D s r)"
| "resolve_ty D s (TApp r ts) = TApp (resolve D s r) (map (resolve_ty D s) ts)"
| "resolve_ty D s (TUnion ts) = TUnion (map (resolve_ty D s) ts)"
| "resolve_ty D s TBoolean = TBoolean"
| "resolve_ty D s TString = TString"
| "resolve_ty D s TObject = TObject"
| "resolve_ty D s TVoid = TVoid"
| "resolve_ty D s TAny = TAny"

fun resolve_param :: "qname list \<Rightarrow> qname \<Rightarrow> param \<Rightarrow> param" where
  "resolve_param D s (Param x opt t) = Param x opt (resolve_ty D s t)"

fun resolve_member :: "qname list \<Rightarrow> qname \<Rightarrow> member \<Rightarrow> member" where
  "resolve_member D s (Property x opt t) = Property x opt (resolve_ty D s t)"
| "resolve_member D s (Method x ps t) =
     Method x (map (resolve_param D s) ps) (resolve_ty D s t)"
| "resolve_member D s (Construct ps t) =
     Construct (map (resolve_param D s) ps) (resolve_ty D s t)"

subsection \<open>Declaration merging and inheritance\<close>

text \<open>
  What one declaration contributes to the type named \<open>n\<close>: the members of its
  body and the types of its \<^verbatim>\<open>extends\<close> clause, with their names resolved where
  the declaration stands; nothing, when it declares another name.
\<close>

fun own_of :: "qname list \<Rightarrow> qname \<Rightarrow> decl \<Rightarrow> member list" where
  "own_of D n (Interface s x exts ms) =
     (if s @ [x] = n then map (resolve_member D s) ms else [])"
| "own_of D n (Variable x t) = []"
| "own_of D n (Function x ps t) = []"

fun bases_of :: "qname list \<Rightarrow> qname \<Rightarrow> decl \<Rightarrow> qname list" where
  "bases_of D n (Interface s x exts ms) =
     (if s @ [x] = n then map (resolve D s) exts else [])"
| "bases_of D n (Variable x t) = []"
| "bases_of D n (Function x ps t) = []"

text \<open>
  Declarations of one name merge: the members a type declares itself, and the
  types it extends, are collected over all its declarations.
\<close>

definition own_members :: "decl list \<Rightarrow> qname \<Rightarrow> member list" where
  "own_members P n = concat (map (own_of (declared_names P) n) P)"

definition bases :: "decl list \<Rightarrow> qname \<Rightarrow> qname list" where
  "bases P n = concat (map (bases_of (declared_names P) n) P)"

text \<open>
  The members of a type: its own and those of the types it extends, followed to
  the given depth. A chain of \<^verbatim>\<open>extends\<close> clauses that does not repeat a name is
  no longer than the number of declarations, so that depth reaches all of them.
\<close>

fun members_upto :: "decl list \<Rightarrow> nat \<Rightarrow> qname \<Rightarrow> member list" where
  "members_upto P 0 n = own_members P n"
| "members_upto P (Suc k) n =
     own_members P n @ concat (map (members_upto P k) (bases P n))"

definition all_members :: "decl list \<Rightarrow> qname \<Rightarrow> member list" where
  "all_members P n = members_upto P (length P) n"

text \<open>
  A value of type \<open>n\<close> supports a member when the member is among those of \<open>n\<close>
  in the program that the library \<open>lib\<close> and this file make together.
\<close>

definition supports :: "decl list \<Rightarrow> qname \<Rightarrow> member \<Rightarrow> bool" where
  "supports lib n m = (m \<in> set (all_members (program lib) n))"

fun is_property :: "string \<Rightarrow> member \<Rightarrow> bool" where
  "is_property x (Property y opt t) = (y = x)"
| "is_property x (Method y ps t) = False"
| "is_property x (Construct ps t) = False"

definition has_property :: "decl list \<Rightarrow> qname \<Rightarrow> string \<Rightarrow> bool" where
  "has_property lib n x = list_ex (is_property x) (all_members (program lib) n)"

text \<open>
  The operations of the mixin: the body of \<^verbatim>\<open>EditableMixin\<close> (lines 156 to
  176).
\<close>

definition mixin_operations :: "member list" where
  "mixin_operations =
     [Method ''enableEdit'' [Param ''map'' False (TRef [''L'', ''Map''])] TAny,
      Method ''disableEdit'' [] TVoid,
      Method ''toggleEdit'' [] TVoid,
      Method ''editEnabled'' [] TBoolean]"

text \<open>
  One clause of the library's typings matters for a polygon: the library declares
  \<^verbatim>\<open>class Polygon extends Polyline\<close>. The instance side of that class is the
  declaration below; it stands for the library where a statement depends on that
  clause and on nothing else of the library.
\<close>

definition library_Polygon :: "decl list" where
  "library_Polygon = [Interface [] ''Polygon'' [[''Polyline'']] []]"

text \<open>
  The edit option set: the properties of the body of \<^verbatim>\<open>EditOptions\<close> (lines 34
  to 103), which are the options the specification lists for the edit
  configuration.
\<close>

definition edit_options :: "string list" where
  "edit_options =
     [''editable'', ''polylineClass'', ''polygonClass'', ''markerClass'',
      ''drawingCSSClass'', ''editLayer'', ''featuresLayer'', ''vertexMarkerClass'',
      ''middleMarkerClass'', ''polylineEditorClass'', ''polygonEditorClass'',
      ''markerEditorClass'', ''lineGuideOptions'', ''skipMiddleMarkers'']"

section \<open>Properties of merging and inheritance\<close>

lemma own_membersI:
  assumes "Interface s x exts ms \<in> set P" and "m \<in> set ms"
  shows "resolve_member (declared_names P) s m \<in> set (own_members P (s @ [x]))"
  using assms unfolding own_members_def by force

lemma basesI:
  assumes "Interface s x exts ms \<in> set P" and "b \<in> set exts"
  shows "resolve (declared_names P) s b \<in> set (bases P (s @ [x]))"
  using assms unfolding bases_def by force

lemma members_upto_own:
  "m \<in> set (own_members P n) \<Longrightarrow> m \<in> set (members_upto P k n)"
  by (cases k) simp_all

lemma members_upto_inherited:
  "b \<in> set (bases P n) \<Longrightarrow> m \<in> set (members_upto P k b) \<Longrightarrow>
   m \<in> set (members_upto P (Suc k) n)"
  by auto

lemma members_upto_leaf:
  "bases P n = [] \<Longrightarrow> members_upto P k n = own_members P n"
  by (cases k) simp_all

text \<open>A greater depth never loses a member.\<close>

lemma members_upto_Suc: "set (members_upto P k n) \<subseteq> set (members_upto P (Suc k) n)"
proof (induction k arbitrary: n)
  case 0
  show ?case by simp
next
  case (Suc k)
  show ?case
  proof
    fix m assume "m \<in> set (members_upto P (Suc k) n)"
    then consider "m \<in> set (own_members P n)"
      | b where "b \<in> set (bases P n)" "m \<in> set (members_upto P k b)"
      by auto
    then show "m \<in> set (members_upto P (Suc (Suc k)) n)"
    proof cases
      case 1
      then show ?thesis by (rule members_upto_own)
    next
      case 2
      from 2(2) Suc.IH have "m \<in> set (members_upto P (Suc k) b)" by blast
      with 2(1) show ?thesis by (rule members_upto_inherited)
    qed
  qed
qed

lemma members_upto_mono:
  "k \<le> k' \<Longrightarrow> set (members_upto P k n) \<subseteq> set (members_upto P k' n)"
proof (induction k')
  case 0
  then show ?case by simp
next
  case (Suc k')
  show ?case
  proof (cases "k = Suc k'")
    case True
    then show ?thesis by simp
  next
    case False
    with Suc.prems have "k \<le> k'" by simp
    then have "set (members_upto P k n) \<subseteq> set (members_upto P k' n)" by (rule Suc.IH)
    also have "\<dots> \<subseteq> set (members_upto P (Suc k') n)" by (rule members_upto_Suc)
    finally show ?thesis .
  qed
qed

subsection \<open>What the file gives, whatever the library declares\<close>

lemmas file_defs =
  declarations_def EditableStatic_def EditOptions_def Editable_def Editable_let_def
  EditableMixin_def Map_interface_def Polyline_193_def Map_MapOptions_def BaseEditor_def
  PathEditor_def PolylineEditor_def PolygonEditor_def MarkerEditor_def Marker_def
  Polyline_def Polygon_def map_function_def

lemma length_program: "length (program lib) = length lib + 17"
  by (simp add: program_def declarations_def)

lemma supports_depth:
  assumes "m \<in> set (members_upto (program lib) k n)" and "k \<le> 17"
  shows "supports lib n m"
proof -
  from assms(2) have "k \<le> length (program lib)" by (simp add: length_program)
  then have "set (members_upto (program lib) k n) \<subseteq> set (all_members (program lib) n)"
    unfolding all_members_def by (rule members_upto_mono)
  with assms(1) show ?thesis by (auto simp: supports_def)
qed

text \<open>
  At the level of the module a reference that does not start with the alias
  \<^verbatim>\<open>leaflet\<close> stands for itself, whatever else is declared.
\<close>

lemma resolve_plain: "a \<noteq> ''leaflet'' \<Longrightarrow> resolve D [] (a # r) = a # r"
  by (simp add: resolve_def module_aliases_def)

lemma resolve_alias: "r \<noteq> [] \<Longrightarrow> resolve D s (''leaflet'' # r) = r"
  by (simp add: resolve_def module_aliases_def)

lemma file_own:
  assumes "Interface [] x exts ms \<in> set declarations" and "m \<in> set ms"
  shows "resolve_member (declared_names (program lib)) [] m
           \<in> set (members_upto (program lib) k [x])"
proof -
  from assms(1) have "Interface [] x exts ms \<in> set (program lib)" by (simp add: program_def)
  from own_membersI [OF this assms(2)]
  have "resolve_member (declared_names (program lib)) [] m
          \<in> set (own_members (program lib) [x])" by simp
  then show ?thesis by (rule members_upto_own)
qed

lemma file_base:
  assumes "Interface [] x exts ms \<in> set declarations" and "b \<in> set exts"
  shows "resolve (declared_names (program lib)) [] b \<in> set (bases (program lib) [x])"
proof -
  from assms(1) have "Interface [] x exts ms \<in> set (program lib)" by (simp add: program_def)
  from basesI [OF this assms(2)] show ?thesis by simp
qed

lemma file_inherited:
  assumes "Interface [] x exts ms \<in> set declarations" and "[b] \<in> set exts"
    and "b \<noteq> ''leaflet''"
    and "m \<in> set (members_upto (program lib) k [b])"
  shows "m \<in> set (members_upto (program lib) (Suc k) [x])"
proof -
  from file_base [OF assms(1,2)] assms(3)
  have "[b] \<in> set (bases (program lib) [x])" by (simp add: resolve_plain)
  then show ?thesis using assms(4) by (rule members_upto_inherited)
qed

lemma in_declarations:
  "EditableStatic \<in> set declarations" "EditOptions \<in> set declarations"
  "Editable \<in> set declarations" "EditableMixin \<in> set declarations"
  "Map_interface \<in> set declarations" "BaseEditor \<in> set declarations"
  "PathEditor \<in> set declarations" "PolylineEditor \<in> set declarations"
  "PolygonEditor \<in> set declarations" "MarkerEditor \<in> set declarations"
  "Marker \<in> set declarations" "Polyline \<in> set declarations"
  "Polygon \<in> set declarations"
  by (simp_all add: declarations_def)

text \<open>The operations of each editor interface, with those it inherits.\<close>

lemma BaseEditor_members:
  assumes "m \<in> set [Method ''enable'' [] editor_union, Method ''disable'' [] editor_union]"
  shows "m \<in> set (members_upto (program lib) k [''BaseEditor''])"
proof -
  have "resolve_member (declared_names (program lib)) [] m = m"
    using assms by (auto simp: editor_union_def resolve_plain)
  with file_own [OF in_declarations(6) [unfolded BaseEditor_def] assms, of lib k]
  show ?thesis by simp
qed

lemma PathEditor_members:
  assumes "m \<in> set [Method ''enable'' [] editor_union, Method ''disable'' [] editor_union,
                     Method ''reset'' [] TVoid]"
  shows "m \<in> set (members_upto (program lib) (Suc k) [''PathEditor''])"
proof (cases "m = Method ''reset'' [] TVoid")
  case True
  have "m \<in> set [Method ''reset'' [] TVoid]" by (simp add: True)
  from file_own [OF in_declarations(7) [unfolded PathEditor_def] this, of lib "Suc k"]
  show ?thesis by (simp add: True del: members_upto.simps)
next
  case False
  with assms have inh: "m \<in> set (members_upto (program lib) k [''BaseEditor''])"
    by (intro BaseEditor_members) auto
  show ?thesis
    by (rule file_inherited [OF in_declarations(7) [unfolded PathEditor_def] _ _ inh]) simp_all
qed

lemma PolylineEditor_members:
  assumes "m \<in> set [Method ''enable'' [] editor_union, Method ''disable'' [] editor_union,
                     Method ''reset'' [] TVoid, Method ''continueForward'' [] TVoid,
                     Method ''continueBackward'' [] TVoid]"
  shows "m \<in> set (members_upto (program lib) (Suc (Suc k)) [''PolylineEditor''])"
proof (cases "m \<in> set [Method ''continueForward'' [] TVoid,
                         Method ''continueBackward'' [] TVoid]")
  case True
  then have "resolve_member (declared_names (program lib)) [] m = m" by auto
  with file_own [OF in_declarations(8) [unfolded PolylineEditor_def] True, of lib "Suc (Suc k)"]
  show ?thesis by (simp del: members_upto.simps)
next
  case False
  with assms have inh: "m \<in> set (members_upto (program lib) (Suc k) [''PathEditor''])"
    by (intro PathEditor_members) auto
  show ?thesis
    by (rule file_inherited [OF in_declarations(8) [unfolded PolylineEditor_def] _ _ inh]) simp_all
qed

lemma PolygonEditor_members:
  assumes "m \<in> set [Method ''enable'' [] editor_union, Method ''disable'' [] editor_union,
                     Method ''reset'' [] TVoid,
                     Method ''newHole'' [Param ''latlng'' False (TRef [''LatLng''])] TVoid]"
  shows "m \<in> set (members_upto (program lib) (Suc (Suc k)) [''PolygonEditor''])"
proof (cases "m \<in> set [Method ''newHole'' [Param ''latlng'' False (TRef [''LatLng''])] TVoid]")
  case True
  then have "resolve_member (declared_names (program lib)) [] m = m"
    by (auto simp: resolve_plain)
  with file_own [OF in_declarations(9) [unfolded PolygonEditor_def] True, of lib "Suc (Suc k)"]
  show ?thesis by (simp del: members_upto.simps)
next
  case False
  with assms have inh: "m \<in> set (members_upto (program lib) (Suc k) [''PathEditor''])"
    by (intro PathEditor_members) auto
  show ?thesis
    by (rule file_inherited [OF in_declarations(9) [unfolded PolygonEditor_def] _ _ inh]) simp_all
qed

lemma MarkerEditor_members:
  assumes "m \<in> set [Method ''enable'' [] editor_union, Method ''disable'' [] editor_union]"
  shows "m \<in> set (members_upto (program lib) (Suc k) [''MarkerEditor''])"
proof -
  from assms have inh: "m \<in> set (members_upto (program lib) k [''BaseEditor''])"
    by (rule BaseEditor_members)
  show ?thesis
    by (rule file_inherited [OF in_declarations(10) [unfolded MarkerEditor_def] _ _ inh]) simp_all
qed

lemma EditableMixin_members:
  assumes "m \<in> set mixin_operations"
  shows "m \<in> set (members_upto (program lib) k [''EditableMixin''])"
proof -
  have "resolve_member (declared_names (program lib)) [] m = m"
    using assms by (auto simp: mixin_operations_def resolve_plain)
  with file_own [OF in_declarations(4) [unfolded EditableMixin_def]
      assms [unfolded mixin_operations_def], of lib k]
  show ?thesis by simp
qed

text \<open>The geometry interfaces: what each takes from its editor and from the mixin.\<close>

lemma Marker_editor_members:
  assumes "m \<in> set [Method ''enable'' [] editor_union, Method ''disable'' [] editor_union]"
  shows "supports lib [''Marker''] m"
proof -
  from assms have inh: "m \<in> set (members_upto (program lib) (Suc 0) [''MarkerEditor''])"
    by (rule MarkerEditor_members)
  have "m \<in> set (members_upto (program lib) (Suc (Suc 0)) [''Marker''])"
    by (rule file_inherited [OF in_declarations(11) [unfolded Marker_def] _ _ inh]) simp_all
  then show ?thesis by (rule supports_depth) simp
qed

lemma Polyline_editor_members:
  assumes "m \<in> set [Method ''enable'' [] editor_union, Method ''disable'' [] editor_union,
                     Method ''reset'' [] TVoid, Method ''continueForward'' [] TVoid,
                     Method ''continueBackward'' [] TVoid]"
  shows "supports lib [''Polyline''] m"
proof -
  from assms
  have inh: "m \<in> set (members_upto (program lib) (Suc (Suc 0)) [''PolylineEditor''])"
    by (rule PolylineEditor_members)
  have "m \<in> set (members_upto (program lib) (Suc (Suc (Suc 0))) [''Polyline''])"
    by (rule file_inherited [OF in_declarations(12) [unfolded Polyline_def] _ _ inh]) simp_all
  then show ?thesis by (rule supports_depth) simp
qed

lemma Polygon_editor_members:
  assumes "m \<in> set [Method ''enable'' [] editor_union, Method ''disable'' [] editor_union,
                     Method ''reset'' [] TVoid,
                     Method ''newHole'' [Param ''latlng'' False (TRef [''LatLng''])] TVoid]"
  shows "supports lib [''Polygon''] m"
proof -
  from assms
  have inh: "m \<in> set (members_upto (program lib) (Suc (Suc 0)) [''PolygonEditor''])"
    by (rule PolygonEditor_members)
  have "m \<in> set (members_upto (program lib) (Suc (Suc (Suc 0))) [''Polygon''])"
    by (rule file_inherited [OF in_declarations(13) [unfolded Polygon_def] _ _ inh]) simp_all
  then show ?thesis by (rule supports_depth) simp
qed

lemma geometry_mixin_members:
  assumes "m \<in> set mixin_operations"
  shows "supports lib [''Marker''] m" and "supports lib [''Polyline''] m"
    and "supports lib [''Polygon''] m"
proof -
  from assms have inh: "m \<in> set (members_upto (program lib) 0 [''EditableMixin''])"
    by (rule EditableMixin_members)
  have "m \<in> set (members_upto (program lib) (Suc 0) [''Marker''])"
    by (rule file_inherited [OF in_declarations(11) [unfolded Marker_def] _ _ inh]) simp_all
  then show "supports lib [''Marker''] m" by (rule supports_depth) simp
  have "m \<in> set (members_upto (program lib) (Suc 0) [''Polyline''])"
    by (rule file_inherited [OF in_declarations(12) [unfolded Polyline_def] _ _ inh]) simp_all
  then show "supports lib [''Polyline''] m" by (rule supports_depth) simp
  have "m \<in> set (members_upto (program lib) (Suc 0) [''Polygon''])"
    by (rule file_inherited [OF in_declarations(13) [unfolded Polygon_def] _ _ inh]) simp_all
  then show "supports lib [''Polygon''] m" by (rule supports_depth) simp
qed

lemma geometry_bases:
  "[''EditableMixin''] \<in> set (bases (program lib) [''Marker''])"
  "[''MarkerEditor''] \<in> set (bases (program lib) [''Marker''])"
  "[''EditableMixin''] \<in> set (bases (program lib) [''Polyline''])"
  "[''PolylineEditor''] \<in> set (bases (program lib) [''Polyline''])"
  "[''EditableMixin''] \<in> set (bases (program lib) [''Polygon''])"
  "[''PolygonEditor''] \<in> set (bases (program lib) [''Polygon''])"
proof -
  note m = file_base [OF in_declarations(11) [unfolded Marker_def], of _ lib]
   and l = file_base [OF in_declarations(12) [unfolded Polyline_def], of _ lib]
   and g = file_base [OF in_declarations(13) [unfolded Polygon_def], of _ lib]
  from m [of "[''EditableMixin'']"]
  show "[''EditableMixin''] \<in> set (bases (program lib) [''Marker''])"
    by (simp add: resolve_plain)
  from m [of "[''MarkerEditor'']"]
  show "[''MarkerEditor''] \<in> set (bases (program lib) [''Marker''])"
    by (simp add: resolve_plain)
  from l [of "[''EditableMixin'']"]
  show "[''EditableMixin''] \<in> set (bases (program lib) [''Polyline''])"
    by (simp add: resolve_plain)
  from l [of "[''PolylineEditor'']"]
  show "[''PolylineEditor''] \<in> set (bases (program lib) [''Polyline''])"
    by (simp add: resolve_plain)
  from g [of "[''EditableMixin'']"]
  show "[''EditableMixin''] \<in> set (bases (program lib) [''Polygon''])"
    by (simp add: resolve_plain)
  from g [of "[''PolygonEditor'']"]
  show "[''PolygonEditor''] \<in> set (bases (program lib) [''Polygon''])"
    by (simp add: resolve_plain)
qed

text \<open>
  The library declares \<^verbatim>\<open>Polygon\<close> as a class that extends \<^verbatim>\<open>Polyline\<close>. With any
  library that does so, a polygon has the continuation operations of a polyline as
  well, through that clause and not through this file.
\<close>

lemma Polygon_continue_through_Polyline:
  assumes "[''Polyline''] \<in> set (bases (program lib) [''Polygon''])"
    and "m \<in> set [Method ''continueForward'' [] TVoid, Method ''continueBackward'' [] TVoid]"
  shows "supports lib [''Polygon''] m"
proof -
  from assms(2)
  have "m \<in> set (members_upto (program lib) (Suc (Suc 0)) [''PolylineEditor''])"
    by (intro PolylineEditor_members) auto
  with geometry_bases(4)
  have "m \<in> set (members_upto (program lib) (Suc (Suc (Suc 0))) [''Polyline''])"
    by (rule members_upto_inherited)
  with assms(1)
  have "m \<in> set (members_upto (program lib) (Suc (Suc (Suc (Suc 0)))) [''Polygon''])"
    by (rule members_upto_inherited)
  then show ?thesis by (rule supports_depth) simp
qed

subsection \<open>The map handle and its options\<close>

lemma has_property_own:
  assumes "Interface [] x exts ms \<in> set declarations" and "list_ex (is_property y) ms"
  shows "has_property lib [x] y"
proof -
  from assms(2) obtain m where m: "m \<in> set ms" "is_property y m"
    by (auto simp: list_ex_iff)
  from file_own [OF assms(1) m(1), of lib 0]
  have "supports lib [x] (resolve_member (declared_names (program lib)) [] m)"
    by (rule supports_depth) simp
  moreover from m(2) have "is_property y (resolve_member (declared_names (program lib)) [] m)"
    by (cases m) simp_all
  ultimately show ?thesis
    by (auto simp: has_property_def supports_def list_ex_iff)
qed

lemma EditOptions_properties: "list_all (has_property lib [''EditOptions'']) edit_options"
proof -
  note p = has_property_own [OF in_declarations(2) [unfolded EditOptions_def], of _ lib]
  have "has_property lib [''EditOptions''] y" if "y \<in> set edit_options" for y
    using that unfolding edit_options_def by (intro p) auto
  then show ?thesis by (simp add: list_all_iff)
qed

lemma EditOptions_base: "[''MapOptions''] \<in> set (bases (program lib) [''EditOptions''])"
  using file_base [OF in_declarations(2) [unfolded EditOptions_def],
      of "[''leaflet'', ''MapOptions'']" lib]
  by (simp add: resolve_alias)

lemma Editable_options:
  "supports lib [''Editable''] (Property ''options'' False (TRef [''EditOptions'']))"
proof -
  from file_own [OF in_declarations(3) [unfolded Editable_def],
      of "Property ''options'' False (TRef [''EditOptions''])" lib 0]
  have "Property ''options'' False (TRef [''EditOptions''])
          \<in> set (members_upto (program lib) 0 [''Editable''])"
    by (simp add: resolve_plain)
  then show ?thesis by (rule supports_depth) simp
qed

lemma Map_properties:
  "supports lib [''Map''] (Property ''editOptions'' False (TRef [''MapOptions'']))"
  "supports lib [''Map''] (Property ''editTools'' False (TRef [''Editable'']))"
proof -
  note d = in_declarations(5) [unfolded Map_interface_def]
  from file_own [OF d, of "Property ''editOptions'' False (TRef [''MapOptions''])" lib 0]
  have "Property ''editOptions'' False (TRef [''MapOptions''])
          \<in> set (members_upto (program lib) 0 [''Map''])"
    by (simp add: resolve_plain)
  then show "supports lib [''Map''] (Property ''editOptions'' False (TRef [''MapOptions'']))"
    by (rule supports_depth) simp
  from file_own [OF d, of "Property ''editTools'' False (TRef [''Editable''])" lib 0]
  have "Property ''editTools'' False (TRef [''Editable''])
          \<in> set (members_upto (program lib) 0 [''Map''])"
    by (simp add: resolve_plain)
  then show "supports lib [''Map''] (Property ''editTools'' False (TRef [''Editable'']))"
    by (rule supports_depth) simp
qed

text \<open>
  The file declares nothing for the module's \<^verbatim>\<open>MapOptions\<close>: its members and its
  bases in the merged program are those the library gives it.
\<close>

lemma file_own_MapOptions: "concat (map (own_of D [''MapOptions'']) declarations) = []"
  by (simp add: file_defs)

lemma file_bases_MapOptions: "concat (map (bases_of D [''MapOptions'']) declarations) = []"
  by (simp add: file_defs)

lemma MapOptions_from_library:
  "own_members (program lib) [''MapOptions''] =
     concat (map (own_of (declared_names (program lib)) [''MapOptions'']) lib)"
  "bases (program lib) [''MapOptions''] =
     concat (map (bases_of (declared_names (program lib)) [''MapOptions'']) lib)"
  by (simp_all add: own_members_def bases_def program_def [of lib]
      file_own_MapOptions file_bases_MapOptions)

lemma all_members_MapOptions: "all_members (program []) [''MapOptions''] = []"
  by (simp add: all_members_def members_upto_leaf MapOptions_from_library)

lemma file_own_Map:
  "concat (map (own_of D [''Map'']) declarations) =
     map (resolve_member D [])
       [Property ''editOptions'' False (TRef [''MapOptions'']),
        Property ''editTools'' False (TRef [''Editable''])]"
  by (simp add: file_defs)

lemma file_bases_Map: "concat (map (bases_of D [''Map'']) declarations) = []"
  by (simp add: file_defs)

lemma all_members_Map:
  "all_members (program []) [''Map''] =
     [Property ''editOptions'' False (TRef [''MapOptions'']),
      Property ''editTools'' False (TRef [''Editable''])]"
proof -
  have "bases (program []) [''Map''] = []"
    by (simp add: bases_def program_def [of "[]"] file_bases_Map)
  then have "all_members (program []) [''Map''] = own_members (program []) [''Map'']"
    by (simp add: all_members_def members_upto_leaf)
  also have "\<dots> = [Property ''editOptions'' False (TRef [''MapOptions'']),
                   Property ''editTools'' False (TRef [''Editable''])]"
    by (simp add: own_members_def program_def [of "[]"] file_own_Map resolve_plain)
  finally show ?thesis .
qed

text \<open>
  The interface \<^verbatim>\<open>MapOptions\<close> that the file declares inside \<^verbatim>\<open>namespace Map\<close> is
  another type, \<^verbatim>\<open>Map.MapOptions\<close>; a reference to \<^verbatim>\<open>MapOptions\<close> means it only
  inside that namespace.
\<close>

lemma file_own_Map_MapOptions:
  "concat (map (own_of D [''Map'', ''MapOptions'']) declarations) =
     map (resolve_member D [''Map''])
       [Property ''editable'' True TBoolean,
        Property ''editOptions'' True (TRef [''MapOptions''])]"
  by (simp add: file_defs)

lemma file_bases_Map_MapOptions:
  "concat (map (bases_of D [''Map'', ''MapOptions'']) declarations) = []"
  by (simp add: file_defs)

lemma declared_Map_MapOptions:
  "is_declared (declared_names (program lib)) [''Map'', ''MapOptions'']"
  by (simp add: is_declared_def declared_names_def program_def file_defs)

lemma all_members_Map_MapOptions:
  "all_members (program []) [''Map'', ''MapOptions''] =
     [Property ''editable'' True TBoolean,
      Property ''editOptions'' True (TRef [''Map'', ''MapOptions''])]"
proof -
  have "bases (program []) [''Map'', ''MapOptions''] = []"
    by (simp add: bases_def program_def [of "[]"] file_bases_Map_MapOptions)
  then have "all_members (program []) [''Map'', ''MapOptions''] =
      own_members (program []) [''Map'', ''MapOptions'']"
    by (simp add: all_members_def members_upto_leaf)
  also have "\<dots> = [Property ''editable'' True TBoolean,
                   Property ''editOptions'' True (TRef [''Map'', ''MapOptions''])]"
    using declared_Map_MapOptions [of "[]"]
    by (simp add: own_members_def program_def [of "[]"] file_own_Map_MapOptions
        resolve_def module_aliases_def)
  finally show ?thesis .
qed

section \<open>The claims the declarations decide\<close>

text \<open>
  The file declares signatures and no behaviour: what \<^verbatim>\<open>enableEdit\<close>,
  \<^verbatim>\<open>stopDrawing\<close> or \<^verbatim>\<open>newHole\<close> do when they run is the business of the
  library's JavaScript, which is not part of this repository. The statements below
  are those that the declarations themselves settle.
\<close>

text \<open>
  Claim C9: every map handle exposes \<^verbatim>\<open>editOptions\<close>, the resolved editing
  configuration (the full edit option set), and \<^verbatim>\<open>editTools\<close>, the live
  \<^verbatim>\<open>Editable\<close> controller, as properties.

  What the file declares: \<^verbatim>\<open>interface Map\<close> has exactly the two properties, both
  required. \<^verbatim>\<open>editTools\<close> has type \<^verbatim>\<open>Editable\<close>. \<^verbatim>\<open>editOptions\<close> has type
  \<^verbatim>\<open>MapOptions\<close>, the module's own map options, which is the interface that
  \<^verbatim>\<open>EditOptions\<close> extends and not \<^verbatim>\<open>EditOptions\<close> itself. Every option of the
  edit option set is a property of \<^verbatim>\<open>EditOptions\<close>; none is a property of
  \<^verbatim>\<open>MapOptions\<close> as far as this file goes (the file adds nothing to it), and
  \<^verbatim>\<open>Map.MapOptions\<close>, the namesake inside the namespace, has \<^verbatim>\<open>editable\<close> only.
  So \<^verbatim>\<open>map.editOptions.polylineClass\<close>, for one, is not declared. The sibling
  property \<^verbatim>\<open>Editable.options\<close>, with the same doc comment, has type
  \<^verbatim>\<open>EditOptions\<close>.
\<close>

theorem Map_editOptions_declared_type:
  "all_members (program []) [''Map''] =
     [Property ''editOptions'' False (TRef [''MapOptions'']),
      Property ''editTools'' False (TRef [''Editable''])]
   \<and> all_members (program []) [''MapOptions''] = []
   \<and> filter (has_property [] [''MapOptions'']) edit_options = []
   \<and> filter (has_property [] [''Map'', ''MapOptions'']) edit_options = [''editable'']
   \<and> list_all (has_property lib [''EditOptions'']) edit_options
   \<and> [''MapOptions''] \<in> set (bases (program lib) [''EditOptions''])
   \<and> supports lib [''Editable''] (Property ''options'' False (TRef [''EditOptions'']))
   \<and> own_members (program lib) [''MapOptions''] =
         concat (map (own_of (declared_names (program lib)) [''MapOptions'']) lib)
   \<and> bases (program lib) [''MapOptions''] =
         concat (map (bases_of (declared_names (program lib)) [''MapOptions'']) lib)
   \<and> supports lib [''Map''] (Property ''editOptions'' False (TRef [''MapOptions'']))
   \<and> supports lib [''Map''] (Property ''editTools'' False (TRef [''Editable'']))"
proof -
  have "filter (has_property [] [''MapOptions'']) edit_options = []"
    by (simp add: has_property_def all_members_MapOptions)
  moreover
  have "filter (has_property [] [''Map'', ''MapOptions'']) edit_options = [''editable'']"
    by (simp add: has_property_def all_members_Map_MapOptions edit_options_def)
  ultimately show ?thesis
    using all_members_Map all_members_MapOptions EditOptions_properties [of lib]
      EditOptions_base [of lib] Editable_options [of lib] MapOptions_from_library [of lib]
      Map_properties [of lib]
    by (intro conjI)
qed

text \<open>
  Claim C10: every \<^verbatim>\<open>Marker\<close>, \<^verbatim>\<open>Polyline\<close> and \<^verbatim>\<open>Polygon\<close> value itself supports
  the editor operations of its kind, besides the operations of the mixin: a
  polyline \<^verbatim>\<open>enable\<close>, \<^verbatim>\<open>disable\<close>, \<^verbatim>\<open>reset\<close>, \<^verbatim>\<open>continueForward\<close> and
  \<^verbatim>\<open>continueBackward\<close>; a polygon additionally \<^verbatim>\<open>newHole\<close>; a marker
  \<^verbatim>\<open>enable\<close> and \<^verbatim>\<open>disable\<close>; because each geometry interface extends its
  editor interface and not only \<^verbatim>\<open>EditableMixin\<close>.

  With whatever the library declares besides the file, a marker has the two
  operations, a polyline the five, and a polygon \<^verbatim>\<open>enable\<close>, \<^verbatim>\<open>disable\<close>,
  \<^verbatim>\<open>reset\<close> and \<^verbatim>\<open>newHole\<close>, each with the operations of the mixin. The two
  continuation operations of a polyline reach a polygon as well, so that a polygon
  has all five and \<^verbatim>\<open>newHole\<close>, in every program in which \<^verbatim>\<open>Polygon\<close> extends
  \<^verbatim>\<open>Polyline\<close>, as the library's class does: \<^verbatim>\<open>PolygonEditor\<close> itself does not
  declare them.
\<close>

theorem geometries_support_editor_operations:
  "list_all (supports lib [''Marker''])
     [Method ''enable'' [] editor_union, Method ''disable'' [] editor_union]
   \<and> list_all (supports lib [''Polyline''])
     [Method ''enable'' [] editor_union, Method ''disable'' [] editor_union,
      Method ''reset'' [] TVoid, Method ''continueForward'' [] TVoid,
      Method ''continueBackward'' [] TVoid]
   \<and> list_all (supports lib [''Polygon''])
     [Method ''enable'' [] editor_union, Method ''disable'' [] editor_union,
      Method ''reset'' [] TVoid,
      Method ''newHole'' [Param ''latlng'' False (TRef [''LatLng''])] TVoid]
   \<and> list_all (supports lib [''Marker'']) mixin_operations
   \<and> list_all (supports lib [''Polyline'']) mixin_operations
   \<and> list_all (supports lib [''Polygon'']) mixin_operations
   \<and> [''EditableMixin''] \<in> set (bases (program lib) [''Marker''])
   \<and> [''MarkerEditor''] \<in> set (bases (program lib) [''Marker''])
   \<and> [''EditableMixin''] \<in> set (bases (program lib) [''Polyline''])
   \<and> [''PolylineEditor''] \<in> set (bases (program lib) [''Polyline''])
   \<and> [''EditableMixin''] \<in> set (bases (program lib) [''Polygon''])
   \<and> [''PolygonEditor''] \<in> set (bases (program lib) [''Polygon''])
   \<and> ([''Polyline''] \<in> set (bases (program lib) [''Polygon'']) \<longrightarrow>
        list_all (supports lib [''Polygon''])
          [Method ''enable'' [] editor_union, Method ''disable'' [] editor_union,
           Method ''reset'' [] TVoid, Method ''continueForward'' [] TVoid,
           Method ''continueBackward'' [] TVoid,
           Method ''newHole'' [Param ''latlng'' False (TRef [''LatLng''])] TVoid])"
proof -
  have "list_all (supports lib [''Marker''])
      [Method ''enable'' [] editor_union, Method ''disable'' [] editor_union]"
    unfolding list_all_iff using Marker_editor_members by blast
  moreover have "list_all (supports lib [''Polyline''])
      [Method ''enable'' [] editor_union, Method ''disable'' [] editor_union,
       Method ''reset'' [] TVoid, Method ''continueForward'' [] TVoid,
       Method ''continueBackward'' [] TVoid]"
    unfolding list_all_iff using Polyline_editor_members by blast
  moreover have "list_all (supports lib [''Polygon''])
      [Method ''enable'' [] editor_union, Method ''disable'' [] editor_union,
       Method ''reset'' [] TVoid,
       Method ''newHole'' [Param ''latlng'' False (TRef [''LatLng''])] TVoid]"
    unfolding list_all_iff using Polygon_editor_members by blast
  moreover have "list_all (supports lib [''Marker'']) mixin_operations"
    and "list_all (supports lib [''Polyline'']) mixin_operations"
    and "list_all (supports lib [''Polygon'']) mixin_operations"
    unfolding list_all_iff using geometry_mixin_members by blast+
  moreover have "list_all (supports lib [''Polygon''])
      [Method ''enable'' [] editor_union, Method ''disable'' [] editor_union,
       Method ''reset'' [] TVoid, Method ''continueForward'' [] TVoid,
       Method ''continueBackward'' [] TVoid,
       Method ''newHole'' [Param ''latlng'' False (TRef [''LatLng''])] TVoid]"
    if ext: "[''Polyline''] \<in> set (bases (program lib) [''Polygon''])"
  proof -
    have "supports lib [''Polygon''] m"
      if "m \<in> set [Method ''enable'' [] editor_union, Method ''disable'' [] editor_union,
                    Method ''reset'' [] TVoid, Method ''continueForward'' [] TVoid,
                    Method ''continueBackward'' [] TVoid,
                    Method ''newHole'' [Param ''latlng'' False (TRef [''LatLng''])] TVoid]"
      for m
    proof (cases "m \<in> set [Method ''continueForward'' [] TVoid,
                            Method ''continueBackward'' [] TVoid]")
      case True
      with ext show ?thesis by (rule Polygon_continue_through_Polyline)
    next
      case False
      with that show ?thesis by (intro Polygon_editor_members) auto
    qed
    then show ?thesis unfolding list_all_iff by blast
  qed
  ultimately show ?thesis
    using geometry_bases [of lib] by (intro conjI impI)
qed

text \<open>
  The hypothesis of the last part holds of the library's clause
  \<^verbatim>\<open>class Polygon extends Polyline\<close>, and there a polygon has the six operations.
\<close>

theorem geometries_support_editor_operations_witness:
  "[''Polyline''] \<in> set (bases (program library_Polygon) [''Polygon''])
   \<and> list_all (supports library_Polygon [''Polygon''])
       [Method ''enable'' [] editor_union, Method ''disable'' [] editor_union,
        Method ''reset'' [] TVoid, Method ''continueForward'' [] TVoid,
        Method ''continueBackward'' [] TVoid,
        Method ''newHole'' [Param ''latlng'' False (TRef [''LatLng''])] TVoid]"
proof -
  have "Interface [] ''Polygon'' [[''Polyline'']] [] \<in> set (program library_Polygon)"
    by (simp add: program_def library_Polygon_def)
  from basesI [OF this, of "[''Polyline'']"]
  have h: "[''Polyline''] \<in> set (bases (program library_Polygon) [''Polygon''])"
    by (simp add: resolve_plain)
  with geometries_support_editor_operations [of library_Polygon] show ?thesis
    by blast
qed

end
